theory Spec2Isabelle
  imports Complex_Main
begin

section \<open>Python values used by both services\<close>

text \<open>
  The two source files are \<^verbatim>\<open>gateway.py\<close> (credentials, quota, proxy routes) and
  \<^verbatim>\<open>load_balancer.py\<close> (backend registry, selection, forwarding). Exceptions are
  values: \<open>HTTPException\<close> is FastAPI's, every other exception a Python class name with
  the text that \<^verbatim>\<open>str(e)\<close> gives. Both are subclasses of \<^verbatim>\<open>Exception\<close>, so an
  \<^verbatim>\<open>except Exception\<close> clause catches both.
\<close>

datatype py_exception = PyException (exc_class: string) (exc_msg: string)

datatype exn = HTTPException (status_code: nat) (detail: string) | Raised py_exception

text \<open>
  A \<^verbatim>\<open>datetime\<close> is kept as its calendar day (\<^verbatim>\<open>.date()\<close>, as the ordinal of the day)
  and the seconds since midnight; the source only ever compares the days.
\<close>

record datetime =
  date :: int
  seconds :: nat

subsection \<open>String methods\<close>

text \<open>\<^verbatim>\<open>s.startswith(p)\<close>.\<close>

definition startswith :: "string \<Rightarrow> string \<Rightarrow> bool" where
  "startswith s p = (take (length p) s = p)"

text \<open>
  \<^verbatim>\<open>s.replace(old, new)\<close> for a non-empty \<open>old\<close>: every occurrence, left to right,
  without overlap. The fuel is the length of the text, which bounds the number of steps.
\<close>

fun replace_from :: "nat \<Rightarrow> string \<Rightarrow> string \<Rightarrow> string \<Rightarrow> string" where
  "replace_from 0 old new s = s"
| "replace_from (Suc n) old new [] = []"
| "replace_from (Suc n) old new (c # cs) =
     (if startswith (c # cs) old
      then new @ replace_from n old new (drop (length old) (c # cs))
      else c # replace_from n old new cs)"

definition replace :: "string \<Rightarrow> string \<Rightarrow> string \<Rightarrow> string" where
  "replace s old new = replace_from (length s) old new s"

text \<open>
  \<^verbatim>\<open>str.isspace\<close> on the code points below 256 (header values are decoded as Latin-1):
  tab to carriage return, the four separators 28 to 31, space, NEL and no-break space.
\<close>

definition isspace :: "char \<Rightarrow> bool" where
  "isspace c =
     (let n = (of_char c :: nat)
      in (9 \<le> n \<and> n \<le> 13) \<or> (28 \<le> n \<and> n \<le> 32) \<or> n = 133 \<or> n = 160)"

text \<open>\<^verbatim>\<open>s.strip()\<close>.\<close>

definition strip :: "string \<Rightarrow> string" where
  "strip s = rev (dropWhile isspace (rev (dropWhile isspace s)))"

section \<open>The credential store of gateway.py\<close>

text \<open>
  Table \<^verbatim>\<open>api_keys\<close>: the column \<^verbatim>\<open>api_key\<close> is \<^verbatim>\<open>UNIQUE NOT NULL\<close>, so the table is a
  partial function from the presented secret to the rest of the row. Table
  \<^verbatim>\<open>usage_logs\<close> is append-only; its autoincrement id is the position in the list.
\<close>

record api_key_row =
  key_id :: string
  key_name :: string
  key_email :: string
  rate_limit :: int
  daily_usage :: int
  last_used :: "datetime option"
  created_at :: datetime
  is_active :: bool

record usage_log =
  api_key_id :: string
  endpoint :: string
  tokens_used :: int
  timestamp :: datetime

record database =
  api_keys :: "string \<rightharpoonup> api_key_row"
  usage_logs :: "usage_log list"

text \<open>The dictionary that \<^verbatim>\<open>validate_api_key\<close> returns.\<close>

record user_info =
  ui_id :: string
  ui_name :: string
  ui_email :: string
  ui_rate_limit :: int
  ui_daily_usage :: int

text \<open>
  \<^verbatim>\<open>validate_api_key\<close>: \<^verbatim>\<open>SELECT ... WHERE api_key = ? AND is_active = 1\<close>, then the
  dictionary of the row found, or \<^verbatim>\<open>None\<close>.
\<close>

definition validate_api_key :: "database \<Rightarrow> string \<Rightarrow> user_info option" where
  "validate_api_key db api_key =
     (case api_keys db api_key of
        None \<Rightarrow> None
      | Some result \<Rightarrow>
          if is_active result
          then Some \<lparr>ui_id = key_id result, ui_name = key_name result,
                     ui_email = key_email result, ui_rate_limit = rate_limit result,
                     ui_daily_usage = daily_usage result\<rparr>
          else None)"

text \<open>
  The guard of the reset in \<^verbatim>\<open>check_rate_limit\<close>:
  \<^verbatim>\<open>last_used and last_used[0]\<close> and
  \<^verbatim>\<open>last_used_date.date() < datetime.now().date()\<close>.
\<close>

definition is_new_day :: "datetime option \<Rightarrow> datetime \<Rightarrow> bool" where
  "is_new_day last_used_value now =
     (case last_used_value of
        None \<Rightarrow> False
      | Some last_used_date \<Rightarrow> date last_used_date < date now)"

text \<open>
  \<^verbatim>\<open>check_rate_limit\<close>: the row is looked up by secret alone (no \<^verbatim>\<open>is_active\<close> filter);
  a missing row gives \<^verbatim>\<open>False\<close>; on a new day the stored counter is set to 0 and the
  local one too; the answer is \<^verbatim>\<open>daily_usage < rate_limit\<close>. The store is returned
  as committed.
\<close>

definition check_rate_limit :: "database \<Rightarrow> datetime \<Rightarrow> string \<Rightarrow> bool \<times> database" where
  "check_rate_limit db now api_key =
     (case api_keys db api_key of
        None \<Rightarrow> (False, db)
      | Some result \<Rightarrow>
          if is_new_day (last_used result) now
          then (0 < rate_limit result,
                db\<lparr>api_keys := (api_keys db)(api_key \<mapsto> result\<lparr>daily_usage := 0\<rparr>)\<rparr>)
          else (daily_usage result < rate_limit result, db))"

text \<open>
  \<^verbatim>\<open>log_usage\<close>: \<^verbatim>\<open>UPDATE api_keys SET daily_usage = daily_usage + ?, last_used =
  CURRENT_TIMESTAMP WHERE api_key = ?\<close> (no row, no change), then the insert into
  \<^verbatim>\<open>usage_logs\<close>. The function has no handler of its own: when sqlite3 raises
  (\<open>fault\<close>), the exception leaves the function and nothing is committed.
\<close>

definition log_usage ::
  "py_exception option \<Rightarrow> datetime \<Rightarrow> database \<Rightarrow> string \<Rightarrow> string \<Rightarrow> int
     \<Rightarrow> py_exception + database" where
  "log_usage fault current_timestamp db api_key endpoint_name tokens =
     (case fault of
        Some e \<Rightarrow> Inl e
      | None \<Rightarrow>
          let keys' =
                (case api_keys db api_key of
                   None \<Rightarrow> api_keys db
                 | Some row \<Rightarrow>
                     (api_keys db)(api_key \<mapsto>
                        row\<lparr>daily_usage := daily_usage row + tokens,
                            last_used := Some current_timestamp\<rparr>))
          in Inr (db\<lparr>api_keys := keys',
                     usage_logs := usage_logs db @
                       [\<lparr>api_key_id = api_key, endpoint = endpoint_name,
                         tokens_used = tokens, timestamp = current_timestamp\<rparr>]\<rparr>))"

subsection \<open>The request and the gate\<close>

text \<open>
  A request: its headers (names in lower case, as Starlette keeps them; \<^verbatim>\<open>.get\<close> is
  the first match), and its body.
\<close>

record request =
  headers :: "(string \<times> string) list"
  body :: string

text \<open>
  \<^verbatim>\<open>get_client_key\<close>: the \<^verbatim>\<open>x-api-key\<close> header when it is present and not empty;
  otherwise, for an \<^verbatim>\<open>authorization\<close> header that starts with \<^verbatim>\<open>Bearer \<close>, that header
  with every \<^verbatim>\<open>Bearer \<close> removed and stripped; otherwise what \<^verbatim>\<open>x-api-key\<close> was
  (\<^verbatim>\<open>None\<close> or the empty text).
\<close>

definition get_client_key :: "request \<Rightarrow> string option" where
  "get_client_key req =
     (let client_key = map_of (headers req) ''x-api-key''
      in if client_key = None \<or> client_key = Some []
         then (case map_of (headers req) ''authorization'' of
                 None \<Rightarrow> client_key
               | Some auth_header \<Rightarrow>
                   if auth_header \<noteq> [] \<and> startswith auth_header ''Bearer ''
                   then Some (strip (replace auth_header ''Bearer '' []))
                   else client_key)
         else client_key)"

text \<open>
  \<^verbatim>\<open>validate_and_check_rate_limit\<close>: 401 for a missing or empty secret, 401 when
  \<^verbatim>\<open>validate_api_key\<close> finds nothing, 429 when \<^verbatim>\<open>check_rate_limit\<close> says no, and the
  user's dictionary otherwise. The store comes back as \<^verbatim>\<open>check_rate_limit\<close> left it.
\<close>

definition validate_and_check_rate_limit ::
  "database \<Rightarrow> datetime \<Rightarrow> request \<Rightarrow> (exn + user_info) \<times> database" where
  "validate_and_check_rate_limit db now req =
     (case get_client_key req of
        None \<Rightarrow>
          (Inl (HTTPException 401
             ''Missing API key. Use x-api-key header or Authorization: Bearer''), db)
      | Some client_key \<Rightarrow>
          if client_key = []
          then (Inl (HTTPException 401
                  ''Missing API key. Use x-api-key header or Authorization: Bearer''), db)
          else (case validate_api_key db client_key of
                  None \<Rightarrow> (Inl (HTTPException 401 ''Invalid API key''), db)
                | Some info \<Rightarrow>
                    (case check_rate_limit db now client_key of
                       (False, db') \<Rightarrow>
                         (Inl (HTTPException 429
                            ''Rate limit exceeded. Try again tomorrow.''), db')
                     | (True, db') \<Rightarrow> (Inr info, db'))))"

section \<open>The proxy routes of gateway.py\<close>

text \<open>
  What the routes use from outside the repository is a parameter: the HTTP client
  (\<open>http_get\<close>, \<open>http_post\<close>: the response, or the exception httpx raises), the JSON
  decoder behind \<^verbatim>\<open>response.json()\<close> and \<^verbatim>\<open>json.loads\<close>, Python's \<^verbatim>\<open>str\<close> on a decoded
  value, the fault sqlite3 may raise inside \<^verbatim>\<open>log_usage\<close>, the clock of
  \<^verbatim>\<open>CURRENT_TIMESTAMP\<close>, and the configured \<^verbatim>\<open>VLLM_URL\<close>. The type \<open>'j\<close> is the type of
  decoded JSON values.
\<close>

record upstream_response =
  resp_status :: nat
  resp_body :: string

record 'j runtime =
  vllm_url :: string
  http_get :: "string \<Rightarrow> py_exception + upstream_response"
  http_post :: "string \<Rightarrow> string \<Rightarrow> py_exception + upstream_response"
  response_json :: "upstream_response \<Rightarrow> py_exception + 'j"
  json_loads :: "string \<Rightarrow> py_exception + 'j"
  py_str :: "'j \<Rightarrow> string"
  db_fault :: "py_exception option"
  current_timestamp :: datetime

text \<open>The \<^verbatim>\<open>JSONResponse\<close> a route returns.\<close>

record 'j json_response =
  jr_status :: nat
  jr_content :: 'j

text \<open>
  The state a route works on: the store, and the URLs of the upstream calls issued so far.
\<close>

record gateway_state =
  gw_db :: database
  upstream_calls :: "string list"

text \<open>
  The names bound in the module namespace of \<^verbatim>\<open>gateway.py\<close> when a route runs: its
  imports (lines 1 to 16), its configuration constants and its functions. The module has
  no \<^verbatim>\<open>import json\<close>. \<open>builtins_read\<close> are the builtins that the code of
  \<^verbatim>\<open>gateway.py\<close> reads; \<^verbatim>\<open>json\<close> is not a builtin of Python.
\<close>

definition gateway_globals :: "string list" where
  "gateway_globals =
     [''os'', ''sqlite3'', ''hashlib'', ''secrets'', ''time'', ''uuid'',
      ''datetime'', ''timedelta'', ''Optional'', ''List'', ''Dict'', ''Any'',
      ''FastAPI'', ''Request'', ''HTTPException'', ''Depends'', ''Header'',
      ''HTMLResponse'', ''JSONResponse'', ''StreamingResponse'',
      ''Jinja2Templates'', ''StaticFiles'', ''CORSMiddleware'', ''httpx'', ''load_dotenv'',
      ''app'', ''VLLM_URL'', ''VLLM_API_KEY'', ''DATABASE_PATH'', ''GATEWAY_PORT'',
      ''templates'', ''init_database'', ''get_db_connection'', ''hash_api_key'',
      ''generate_api_key'', ''validate_api_key'', ''check_rate_limit'', ''log_usage'',
      ''get_client_key'', ''validate_and_check_rate_limit'', ''home_page'', ''dashboard'',
      ''api_keys_page'', ''chat_page'', ''docs_redirect'', ''list_api_keys'',
      ''create_api_key'', ''delete_api_key'', ''get_models'', ''chat_completions'',
      ''completions'', ''health_check'', ''monitor_page'', ''startup_event'']"

definition builtins_read :: "string list" where
  "builtins_read = [''len'', ''str'', ''int'', ''bool'', ''Exception'']"

text \<open>
  Reading a global name: the module namespace, then the builtins, then \<^verbatim>\<open>NameError\<close>
  with Python's message \<^verbatim>\<open>name '...' is not defined\<close>.
\<close>

definition load_global :: "string \<Rightarrow> py_exception + unit" where
  "load_global n =
     (if n \<in> set gateway_globals \<or> n \<in> set builtins_read
      then Inr ()
      else Inl (PyException ''NameError''
                  (''name '' @ [CHR 0x27] @ n @ [CHR 0x27] @ '' is not defined'')))"

text \<open>
  The cost of an inference call:
  \<^verbatim>\<open>len(str(request_data)) // 4 + len(str(response_data)) // 4\<close>, on the two texts that
  \<^verbatim>\<open>str\<close> gives.
\<close>

definition estimate_tokens :: "string \<Rightarrow> string \<Rightarrow> int" where
  "estimate_tokens request_text response_text =
     int (length request_text) div 4 + int (length response_text) div 4"

text \<open>
  The \<^verbatim>\<open>try\<close> block of \<^verbatim>\<open>chat_completions\<close> and \<^verbatim>\<open>completions\<close> (the two differ in the
  upstream path and the endpoint name only), from the call of \<^verbatim>\<open>loads\<close> on: decode the
  body, post it upstream, decode the answer, compute the cost, record it, answer.
\<close>

definition inference_body ::
  "'j runtime \<Rightarrow> gateway_state \<Rightarrow> user_info \<Rightarrow> string \<Rightarrow> string \<Rightarrow> string
     \<Rightarrow> (py_exception + 'j json_response) \<times> gateway_state" where
  "inference_body rt st info path endpoint_name body_bytes =
     (case json_loads rt body_bytes of
        Inl e \<Rightarrow> (Inl e, st)
      | Inr request_data \<Rightarrow>
          let st1 = st\<lparr>upstream_calls := upstream_calls st @ [vllm_url rt @ path]\<rparr>
          in (case http_post rt (vllm_url rt @ path) body_bytes of
                Inl e \<Rightarrow> (Inl e, st1)
              | Inr response \<Rightarrow>
                  (case response_json rt response of
                     Inl e \<Rightarrow> (Inl e, st1)
                   | Inr response_data \<Rightarrow>
                       let tokens = estimate_tokens (py_str rt request_data)
                                      (py_str rt response_data)
                       in (case log_usage (db_fault rt) (current_timestamp rt) (gw_db st1)
                                  (ui_id info) endpoint_name tokens of
                             Inl e \<Rightarrow> (Inl e, st1)
                           | Inr db' \<Rightarrow>
                               (Inr \<lparr>jr_status = resp_status response,
                                     jr_content = response_data\<rparr>,
                                st1\<lparr>gw_db := db'\<rparr>)))))"

text \<open>
  The whole \<^verbatim>\<open>try\<close> block: its first statement is \<^verbatim>\<open>request_data = json.loads(body)\<close>,
  which reads the global name \<^verbatim>\<open>json\<close> before anything else.
\<close>

definition inference_try ::
  "'j runtime \<Rightarrow> gateway_state \<Rightarrow> user_info \<Rightarrow> string \<Rightarrow> string \<Rightarrow> string
     \<Rightarrow> (py_exception + 'j json_response) \<times> gateway_state" where
  "inference_try rt st info path endpoint_name body_bytes =
     (case load_global ''json'' of
        Inl e \<Rightarrow> (Inl e, st)
      | Inr _ \<Rightarrow> inference_body rt st info path endpoint_name body_bytes)"

text \<open>
  A POST route: the gate runs outside the \<^verbatim>\<open>try\<close>, so its 401 and 429 pass through;
  every exception of the block becomes
  \<^verbatim>\<open>HTTPException(500, f"Error connecting to vLLM: {str(e)}")\<close>.
\<close>

definition inference_route ::
  "string \<Rightarrow> string \<Rightarrow> 'j runtime \<Rightarrow> gateway_state \<Rightarrow> datetime \<Rightarrow> request
     \<Rightarrow> (exn + 'j json_response) \<times> gateway_state" where
  "inference_route path endpoint_name rt st now req =
     (case validate_and_check_rate_limit (gw_db st) now req of
        (Inl e, db') \<Rightarrow> (Inl e, st\<lparr>gw_db := db'\<rparr>)
      | (Inr info, db') \<Rightarrow>
          (case inference_try rt (st\<lparr>gw_db := db'\<rparr>) info path endpoint_name (body req) of
             (Inl e, st') \<Rightarrow>
               (Inl (HTTPException 500 (''Error connecting to vLLM: '' @ exc_msg e)), st')
           | (Inr answer, st') \<Rightarrow> (Inr answer, st')))"

definition chat_completions ::
  "'j runtime \<Rightarrow> gateway_state \<Rightarrow> datetime \<Rightarrow> request
     \<Rightarrow> (exn + 'j json_response) \<times> gateway_state" where
  "chat_completions = inference_route ''/chat/completions'' ''/v1/chat/completions''"

definition completions ::
  "'j runtime \<Rightarrow> gateway_state \<Rightarrow> datetime \<Rightarrow> request
     \<Rightarrow> (exn + 'j json_response) \<times> gateway_state" where
  "completions = inference_route ''/completions'' ''/v1/completions''"

text \<open>
  The \<^verbatim>\<open>try\<close> block of \<^verbatim>\<open>get_models\<close>: the upstream GET, then \<^verbatim>\<open>log_usage\<close> with cost
  0, then \<^verbatim>\<open>response.json()\<close> for the answer.
\<close>

definition get_models_try ::
  "'j runtime \<Rightarrow> gateway_state \<Rightarrow> user_info
     \<Rightarrow> (py_exception + 'j json_response) \<times> gateway_state" where
  "get_models_try rt st info =
     (let st1 = st\<lparr>upstream_calls := upstream_calls st @ [vllm_url rt @ ''/models'']\<rparr>
      in case http_get rt (vllm_url rt @ ''/models'') of
           Inl e \<Rightarrow> (Inl e, st1)
         | Inr response \<Rightarrow>
             (case log_usage (db_fault rt) (current_timestamp rt) (gw_db st1)
                     (ui_id info) ''/v1/models'' 0 of
                Inl e \<Rightarrow> (Inl e, st1)
              | Inr db' \<Rightarrow>
                  (case response_json rt response of
                     Inl e \<Rightarrow> (Inl e, st1\<lparr>gw_db := db'\<rparr>)
                   | Inr content \<Rightarrow>
                       (Inr \<lparr>jr_status = resp_status response, jr_content = content\<rparr>,
                        st1\<lparr>gw_db := db'\<rparr>))))"

definition get_models ::
  "'j runtime \<Rightarrow> gateway_state \<Rightarrow> datetime \<Rightarrow> request
     \<Rightarrow> (exn + 'j json_response) \<times> gateway_state" where
  "get_models rt st now req =
     (case validate_and_check_rate_limit (gw_db st) now req of
        (Inl e, db') \<Rightarrow> (Inl e, st\<lparr>gw_db := db'\<rparr>)
      | (Inr info, db') \<Rightarrow>
          (case get_models_try rt (st\<lparr>gw_db := db'\<rparr>) info of
             (Inl e, st') \<Rightarrow>
               (Inl (HTTPException 500 (''Error connecting to vLLM: '' @ exc_msg e)), st')
           | (Inr answer, st') \<Rightarrow> (Inr answer, st')))"

section \<open>The registry and the selection of load_balancer.py\<close>

text \<open>
  Class \<^verbatim>\<open>LoadBalancer\<close>: the list of gateways in registration order and three
  dictionaries keyed by gateway. A lookup of a key that is not there raises
  \<^verbatim>\<open>KeyError\<close>. Times are those of \<^verbatim>\<open>time.time()\<close>, taken as real numbers.
\<close>

record load_balancer =
  gateways :: "string list"
  health_status :: "string \<rightharpoonup> bool"
  request_counts :: "string \<rightharpoonup> int"
  last_health_check :: "string \<rightharpoonup> real"
  health_check_interval :: real

definition key_error :: "string \<Rightarrow> exn" where
  "key_error k = Raised (PyException ''KeyError'' ([CHR 0x27] @ k @ [CHR 0x27]))"

text \<open>\<^verbatim>\<open>__init__\<close>: three gateways, all healthy, no request counted, never probed.\<close>

definition LoadBalancer_init :: load_balancer where
  "LoadBalancer_init =
     (let gs = [''http://localhost:8001'', ''http://localhost:8002'',
                ''http://localhost:8003'']
      in \<lparr>gateways = gs,
          health_status = map_of (map (\<lambda>gateway. (gateway, True)) gs),
          request_counts = map_of (map (\<lambda>gateway. (gateway, 0)) gs),
          last_health_check = map_of (map (\<lambda>gateway. (gateway, 0)) gs),
          health_check_interval = 30\<rparr>)"

text \<open>
  \<^verbatim>\<open>update_health_status\<close>: for each gateway in order, when more than the interval has
  passed since its last probe, store the probe's answer and the time. \<open>probe\<close> is
  \<^verbatim>\<open>health_check\<close>, which answers whether the gateway's health route returned 200 and
  catches every exception itself. The result is the exception that ended the loop, if
  any, and the registry as the loop left it.
\<close>

fun update_loop ::
  "(string \<Rightarrow> bool) \<Rightarrow> real \<Rightarrow> string list \<Rightarrow> load_balancer
     \<Rightarrow> exn option \<times> load_balancer" where
  "update_loop probe current_time [] lb = (None, lb)"
| "update_loop probe current_time (gateway # rest) lb =
     (case last_health_check lb gateway of
        None \<Rightarrow> (Some (key_error gateway), lb)
      | Some last_check \<Rightarrow>
          if current_time - last_check > health_check_interval lb
          then update_loop probe current_time rest
                 (lb\<lparr>health_status := (health_status lb)(gateway \<mapsto> probe gateway),
                     last_health_check := (last_health_check lb)(gateway \<mapsto> current_time)\<rparr>)
          else update_loop probe current_time rest lb)"

definition update_health_status ::
  "(string \<Rightarrow> bool) \<Rightarrow> real \<Rightarrow> load_balancer \<Rightarrow> exn option \<times> load_balancer" where
  "update_health_status probe current_time lb =
     update_loop probe current_time (gateways lb) lb"

text \<open>
  \<^verbatim>\<open>get_healthy_gateways\<close>: the comprehension
  \<^verbatim>\<open>[gateway for gateway in self.gateways if self.health_status[gateway]]\<close>.
\<close>

fun healthy_of :: "(string \<rightharpoonup> bool) \<Rightarrow> string list \<Rightarrow> exn + string list" where
  "healthy_of status [] = Inr []"
| "healthy_of status (gateway # rest) =
     (case status gateway of
        None \<Rightarrow> Inl (key_error gateway)
      | Some healthy \<Rightarrow>
          (case healthy_of status rest of
             Inl e \<Rightarrow> Inl e
           | Inr others \<Rightarrow> Inr (if healthy then gateway # others else others)))"

definition get_healthy_gateways :: "load_balancer \<Rightarrow> exn + string list" where
  "get_healthy_gateways lb = healthy_of (health_status lb) (gateways lb)"

text \<open>
  Python's \<^verbatim>\<open>min(iterable, key=...)\<close> with the key \<^verbatim>\<open>lambda g: self.request_counts[g]\<close>:
  the first item is the best so far, and a later item replaces it only when its key is
  strictly smaller. An empty iterable raises \<^verbatim>\<open>ValueError\<close>.
\<close>

fun min_loop :: "(string \<rightharpoonup> int) \<Rightarrow> string \<Rightarrow> int \<Rightarrow> string list \<Rightarrow> exn + string" where
  "min_loop counts best best_key [] = Inr best"
| "min_loop counts best best_key (g # rest) =
     (case counts g of
        None \<Rightarrow> Inl (key_error g)
      | Some k \<Rightarrow>
          if k < best_key then min_loop counts g k rest
          else min_loop counts best best_key rest)"

definition py_min :: "(string \<rightharpoonup> int) \<Rightarrow> string list \<Rightarrow> exn + string" where
  "py_min counts items =
     (case items of
        [] \<Rightarrow> Inl (Raised (PyException ''ValueError'' ''min() arg is an empty sequence''))
      | g # rest \<Rightarrow>
          (case counts g of
             None \<Rightarrow> Inl (key_error g)
           | Some k \<Rightarrow> min_loop counts g k rest))"

text \<open>
  \<^verbatim>\<open>select_gateway\<close>. The strategy argument is optional and defaults to
  \<^verbatim>\<open>"round_robin"\<close>. \<open>choice\<close> is \<^verbatim>\<open>random.choice\<close>. The three branches that take the
  minimum are written out as the source has them.
\<close>

definition select_gateway ::
  "(string list \<Rightarrow> string) \<Rightarrow> load_balancer \<Rightarrow> string option
     \<Rightarrow> exn + (string \<times> load_balancer)" where
  "select_gateway choice lb strategy_arg =
     (let strategy = (case strategy_arg of None \<Rightarrow> ''round_robin'' | Some s \<Rightarrow> s)
      in case get_healthy_gateways lb of
           Inl e \<Rightarrow> Inl e
         | Inr healthy_gateways \<Rightarrow>
             if healthy_gateways = []
             then Inl (HTTPException 503 ''No healthy gateways available'')
             else if strategy = ''round_robin''
             then (case py_min (request_counts lb) healthy_gateways of
                     Inl e \<Rightarrow> Inl e
                   | Inr selected \<Rightarrow>
                       (case request_counts lb selected of
                          None \<Rightarrow> Inl (key_error selected)
                        | Some n \<Rightarrow>
                            Inr (selected,
                                 lb\<lparr>request_counts :=
                                      (request_counts lb)(selected \<mapsto> n + 1)\<rparr>)))
             else if strategy = ''random''
             then Inr (choice healthy_gateways, lb)
             else if strategy = ''least_connections''
             then (case py_min (request_counts lb) healthy_gateways of
                     Inl e \<Rightarrow> Inl e
                   | Inr selected \<Rightarrow>
                       (case request_counts lb selected of
                          None \<Rightarrow> Inl (key_error selected)
                        | Some n \<Rightarrow>
                            Inr (selected,
                                 lb\<lparr>request_counts :=
                                      (request_counts lb)(selected \<mapsto> n + 1)\<rparr>)))
             else (case py_min (request_counts lb) healthy_gateways of
                     Inl e \<Rightarrow> Inl e
                   | Inr selected \<Rightarrow>
                       (case request_counts lb selected of
                          None \<Rightarrow> Inl (key_error selected)
                        | Some n \<Rightarrow>
                            Inr (selected,
                                 lb\<lparr>request_counts :=
                                      (request_counts lb)(selected \<mapsto> n + 1)\<rparr>))))"

subsection \<open>Forwarding\<close>

text \<open>
  The inbound request of the balancer, the call it sends upstream, and the answer.
  \<open>send\<close> is \<^verbatim>\<open>client.request\<close>: the upstream response, or the exception httpx raises
  (connection failure, timeout, a response it cannot read).
\<close>

record lb_request =
  lb_method :: string
  lb_headers :: "(string \<times> string) list"
  lb_body :: string
  lb_query_params :: string

record upstream_call =
  call_method :: string
  call_url :: string
  call_headers :: "(string \<times> string) list"
  call_content :: string
  call_params :: string

record streaming_response =
  sr_status :: nat
  sr_headers :: "(string \<times> string) list"
  sr_content :: string

text \<open>
  \<^verbatim>\<open>dict(request.headers)\<close>: one entry for each header name, with the first value of
  that name, in the order of first appearance.
\<close>

fun dict_of :: "(string \<times> string) list \<Rightarrow> (string \<times> string) list" where
  "dict_of [] = []"
| "dict_of ((k, v) # rest) = (k, v) # filter (\<lambda>(k', v'). k' \<noteq> k) (dict_of rest)"

text \<open>
  \<^verbatim>\<open>proxy_request\<close>: one call to \<^verbatim>\<open>gateway + path\<close> with the method, the headers
  without \<^verbatim>\<open>host\<close>, the body and the query; the upstream answer is passed on, and any
  exception of the call becomes \<^verbatim>\<open>HTTPException(502, f"Gateway error: {str(e)}")\<close>.
  \<open>sent\<close> is the list of calls sent so far.
\<close>

definition proxy_request ::
  "(upstream_call \<Rightarrow> py_exception + streaming_response) \<Rightarrow> upstream_call list
     \<Rightarrow> lb_request \<Rightarrow> string \<Rightarrow> string
     \<Rightarrow> (exn + streaming_response) \<times> upstream_call list" where
  "proxy_request send sent req gateway path =
     (let full_url = gateway @ path;
          hdrs = filter (\<lambda>(k, v). k \<noteq> ''host'') (dict_of (lb_headers req));
          call = \<lparr>call_method = lb_method req, call_url = full_url, call_headers = hdrs,
                  call_content = lb_body req, call_params = lb_query_params req\<rparr>
      in case send call of
           Inl e \<Rightarrow>
             (Inl (HTTPException 502 (''Gateway error: '' @ exc_msg e)), sent @ [call])
         | Inr response \<Rightarrow>
             (Inr \<lparr>sr_status = sr_status response, sr_headers = sr_headers response,
                   sr_content = sr_content response\<rparr>,
              sent @ [call]))"

text \<open>
  \<^verbatim>\<open>proxy_all\<close>: refresh the health flags, then, inside one \<^verbatim>\<open>try\<close>, select with the
  strategy \<^verbatim>\<open>"round_robin"\<close> and forward. The \<^verbatim>\<open>except Exception\<close> of that \<^verbatim>\<open>try\<close>
  catches every exception, the \<^verbatim>\<open>HTTPException\<close> of \<^verbatim>\<open>select_gateway\<close> and of
  \<^verbatim>\<open>proxy_request\<close> included, and raises 503 in its place. What the selection wrote to
  the registry stays written.
\<close>

definition proxy_all ::
  "(string \<Rightarrow> bool) \<Rightarrow> (string list \<Rightarrow> string)
     \<Rightarrow> (upstream_call \<Rightarrow> py_exception + streaming_response)
     \<Rightarrow> load_balancer \<Rightarrow> upstream_call list \<Rightarrow> real \<Rightarrow> lb_request \<Rightarrow> string
     \<Rightarrow> (exn + streaming_response) \<times> load_balancer \<times> upstream_call list" where
  "proxy_all probe choice send lb sent current_time req path =
     (case update_health_status probe current_time lb of
        (Some e, lb1) \<Rightarrow> (Inl e, lb1, sent)
      | (None, lb1) \<Rightarrow>
          (case select_gateway choice lb1 (Some ''round_robin'') of
             Inl e \<Rightarrow>
               (Inl (HTTPException 503 ''Service temporarily unavailable''), lb1, sent)
           | Inr (selected_gateway, lb2) \<Rightarrow>
               (case proxy_request send sent req selected_gateway (''/'' @ path) of
                  (Inl e, sent') \<Rightarrow>
                    (Inl (HTTPException 503 ''Service temporarily unavailable''), lb2, sent')
                | (Inr response, sent') \<Rightarrow> (Inr response, lb2, sent'))))"

section \<open>Example data\<close>

text \<open>
  Three credentials used by the concrete checks below: \<open>vllm_k1\<close> with one call used
  of two, \<open>vllm_k2\<close> with both used, and \<open>vllm_k3\<close>, which is switched off. All three
  were last used on day 10.
\<close>

definition row1 :: api_key_row where
  "row1 = \<lparr>key_id = ''id-1'', key_name = ''alice'', key_email = ''a@example.org'',
           rate_limit = 2, daily_usage = 1, last_used = Some \<lparr>date = 10, seconds = 0\<rparr>,
           created_at = \<lparr>date = 1, seconds = 0\<rparr>, is_active = True\<rparr>"

definition row2 :: api_key_row where
  "row2 = row1\<lparr>key_id := ''id-2'', daily_usage := 2\<rparr>"

definition row3 :: api_key_row where
  "row3 = row1\<lparr>key_id := ''id-3'', is_active := False\<rparr>"

definition db1 :: database where
  "db1 = \<lparr>api_keys = [''vllm_k1'' \<mapsto> row1, ''vllm_k2'' \<mapsto> row2, ''vllm_k3'' \<mapsto> row3],
          usage_logs = []\<rparr>"

definition req1 :: request where
  "req1 = \<lparr>headers = [(''x-api-key'', ''vllm_k1'')], body = ''{}''\<rparr>"

definition req2 :: request where
  "req2 = \<lparr>headers = [(''authorization'', ''Bearer vllm_k2'')], body = ''{}''\<rparr>"

definition req3 :: request where
  "req3 = \<lparr>headers = [(''x-api-key'', ''vllm_k3'')], body = ''{}''\<rparr>"

definition req4 :: request where
  "req4 = \<lparr>headers = [(''x-api-key'', ''vllm_nobody'')], body = ''{}''\<rparr>"

definition gw1 :: string where
  "gw1 = ''http://localhost:8001''"

definition gw2 :: string where
  "gw2 = ''http://localhost:8002''"

definition gw3 :: string where
  "gw3 = ''http://localhost:8003''"

text \<open>
  A registry of the three gateways with given counters, all healthy or all unhealthy,
  each probed last at second 100.
\<close>

definition lb_counts :: "int \<Rightarrow> int \<Rightarrow> int \<Rightarrow> bool \<Rightarrow> load_balancer" where
  "lb_counts a b c up =
     \<lparr>gateways = [gw1, gw2, gw3],
      health_status = [gw1 \<mapsto> up, gw2 \<mapsto> up, gw3 \<mapsto> up],
      request_counts = [gw1 \<mapsto> a, gw2 \<mapsto> b, gw3 \<mapsto> c],
      last_health_check = [gw1 \<mapsto> 100, gw2 \<mapsto> 100, gw3 \<mapsto> 100],
      health_check_interval = 30\<rparr>"

definition lb_req1 :: lb_request where
  "lb_req1 = \<lparr>lb_method = ''POST'',
              lb_headers = [(''host'', ''balancer.example''), (''x-api-key'', ''vllm_k1'')],
              lb_body = ''{}'', lb_query_params = []\<rparr>"

definition send_fails :: "upstream_call \<Rightarrow> py_exception + streaming_response" where
  "send_fails call = Inl (PyException ''ConnectError'' ''All connection attempts failed'')"

definition send_ok :: "upstream_call \<Rightarrow> py_exception + streaming_response" where
  "send_ok call = Inr \<lparr>sr_status = 200, sr_headers = [], sr_content = ''{}''\<rparr>"

definition probe_up :: "string \<Rightarrow> bool" where
  "probe_up g = True"

definition probe_down :: "string \<Rightarrow> bool" where
  "probe_down g = False"

text \<open>
  A runtime where the upstream answers 200 with the body \<open>{}\<close>, a decoded value is kept
  as its text, and the store works; the same with the store locked; the same with the
  upstream unreachable.
\<close>

definition rt_ok :: "string runtime" where
  "rt_ok =
     \<lparr>vllm_url = ''http://localhost:8000/v1'',
      http_get = (\<lambda>url. Inr \<lparr>resp_status = 200, resp_body = ''{}''\<rparr>),
      http_post = (\<lambda>url content. Inr \<lparr>resp_status = 200, resp_body = ''{}''\<rparr>),
      response_json = (\<lambda>response. Inr (resp_body response)),
      json_loads = (\<lambda>text. Inr text),
      py_str = (\<lambda>v. v),
      db_fault = None,
      current_timestamp = \<lparr>date = 10, seconds = 6\<rparr>\<rparr>"

definition rt_locked :: "string runtime" where
  "rt_locked = rt_ok\<lparr>db_fault := Some (PyException ''OperationalError'' ''database is locked'')\<rparr>"


definition st1 :: gateway_state where
  "st1 = \<lparr>gw_db = db1, upstream_calls = []\<rparr>"

definition info1 :: user_info where
  "info1 = \<lparr>ui_id = ''id-1'', ui_name = ''alice'', ui_email = ''a@example.org'',
            ui_rate_limit = 2, ui_daily_usage = 1\<rparr>"

section \<open>The invariant of the counter\<close>

text \<open>
  The data model's invariant \<open>daily_usage \<ge> 0\<close>: a new row gets the column default 0,
  the reset writes 0, and \<^verbatim>\<open>log_usage\<close> adds a cost that is a sum of two lengths
  divided by 4, or the literal 0.
\<close>

definition usage_nonneg :: "database \<Rightarrow> bool" where
  "usage_nonneg db = (\<forall>row \<in> ran (api_keys db). 0 \<le> daily_usage row)"

section \<open>The quota gate\<close>

lemma client_key_req1: "get_client_key req1 = Some ''vllm_k1''"
  by (simp add: get_client_key_def req1_def)

lemma client_key_req2: "get_client_key req2 = Some ''vllm_k2''"
  by (simp add: get_client_key_def req2_def startswith_def replace_def strip_def isspace_def)

lemma client_key_req3: "get_client_key req3 = Some ''vllm_k3''"
  by (simp add: get_client_key_def req3_def)

lemma client_key_req4: "get_client_key req4 = Some ''vllm_nobody''"
  by (simp add: get_client_key_def req4_def)

text \<open>The answer of \<^verbatim>\<open>check_rate_limit\<close> for a stored row, reset included.\<close>

lemma check_rate_limit_of_row:
  assumes "api_keys db k = Some row"
  shows "fst (check_rate_limit db now k) =
           ((if is_new_day (last_used row) now then 0 else daily_usage row) < rate_limit row)"
  using assms by (simp add: check_rate_limit_def)

text \<open>For an active credential the gate is decided by \<^verbatim>\<open>check_rate_limit\<close> alone.\<close>

lemma gate_of_active_row:
  assumes "get_client_key req = Some k" and "k \<noteq> []"
    and "api_keys db k = Some row" and "is_active row"
  shows "validate_and_check_rate_limit db now req =
     (if fst (check_rate_limit db now k)
      then Inr \<lparr>ui_id = key_id row, ui_name = key_name row, ui_email = key_email row,
                ui_rate_limit = rate_limit row, ui_daily_usage = daily_usage row\<rparr>
      else Inl (HTTPException 429 ''Rate limit exceeded. Try again tomorrow.''),
      snd (check_rate_limit db now k))"
  using assms
  by (auto simp: validate_and_check_rate_limit_def validate_api_key_def
           split: prod.splits bool.splits)

subsection \<open>The counter is never negative\<close>

text \<open>
  Both writers of the counter keep \<open>usage_nonneg\<close>: the reset writes 0, and
  \<^verbatim>\<open>log_usage\<close> adds a cost that is not negative.
\<close>

lemma usage_nonneg_update:
  assumes "usage_nonneg db" and "0 \<le> daily_usage row"
  shows "usage_nonneg (db\<lparr>api_keys := (api_keys db)(k \<mapsto> row)\<rparr>)"
proof -
  have "ran ((api_keys db)(k \<mapsto> row)) \<subseteq> insert row (ran (api_keys db))"
    by (auto simp: ran_def)
  with assms show ?thesis
    unfolding usage_nonneg_def by auto
qed

lemma check_rate_limit_keeps_usage_nonneg:
  assumes "usage_nonneg db"
  shows "usage_nonneg (snd (check_rate_limit db now k))"
proof (cases "api_keys db k")
  case None
  with assms show ?thesis by (simp add: check_rate_limit_def)
next
  case (Some row)
  have "usage_nonneg (db\<lparr>api_keys := (api_keys db)(k \<mapsto> row\<lparr>daily_usage := 0\<rparr>)\<rparr>)"
    using assms by (rule usage_nonneg_update) simp
  with Some assms show ?thesis by (simp add: check_rate_limit_def)
qed

lemma log_usage_keeps_usage_nonneg:
  assumes "usage_nonneg db" and "0 \<le> tokens"
    and "log_usage fault ts db k ep tokens = Inr db'"
  shows "usage_nonneg db'"
proof (cases "api_keys db k")
  case None
  with assms show ?thesis
    by (auto simp: log_usage_def usage_nonneg_def split: option.splits)
next
  case (Some row)
  from assms(1) Some have "0 \<le> daily_usage row"
    by (auto simp: usage_nonneg_def ran_def)
  with assms(2)
  have "usage_nonneg (db\<lparr>api_keys := (api_keys db)(k \<mapsto>
          row\<lparr>daily_usage := daily_usage row + tokens, last_used := Some ts\<rparr>)\<rparr>)"
    by (intro usage_nonneg_update [OF assms(1)]) simp
  with Some assms(3) show ?thesis
    by (auto simp: log_usage_def usage_nonneg_def split: option.splits)
qed

text \<open>The costs the routes pass to \<^verbatim>\<open>log_usage\<close> are not negative.\<close>

lemma estimate_tokens_nonneg: "0 \<le> estimate_tokens a b"
  by (simp add: estimate_tokens_def)

subsection \<open>Admission below the limit, rejection at the limit\<close>

text \<open>
  C1. For a stored credential whose counter is below its limit (the counter being
  non-negative, as the data model has it), \<^verbatim>\<open>check_rate_limit\<close> answers yes, and when
  the credential is active the gate \<^verbatim>\<open>validate_and_check_rate_limit\<close> returns the
  user's dictionary. For a credential whose counter, after the day-boundary reset where
  it applies, has reached its limit, \<^verbatim>\<open>check_rate_limit\<close> answers no, and the gate
  raises 429 for the active credential.
\<close>

theorem quota_gate_admits_below_limit_and_rejects_at_limit:
  assumes "api_keys db k = Some row"
  shows "(0 \<le> daily_usage row \<and> daily_usage row < rate_limit row
            \<longrightarrow> fst (check_rate_limit db now k))
       \<and> (rate_limit row \<le> (if is_new_day (last_used row) now then 0 else daily_usage row)
            \<longrightarrow> \<not> fst (check_rate_limit db now k))
       \<and> (is_active row \<and> get_client_key req = Some k \<and> k \<noteq> [] \<longrightarrow>
            (0 \<le> daily_usage row \<and> daily_usage row < rate_limit row \<longrightarrow>
               fst (validate_and_check_rate_limit db now req) =
                 Inr \<lparr>ui_id = key_id row, ui_name = key_name row, ui_email = key_email row,
                      ui_rate_limit = rate_limit row, ui_daily_usage = daily_usage row\<rparr>)
          \<and> (rate_limit row \<le> (if is_new_day (last_used row) now then 0 else daily_usage row)
               \<longrightarrow>
               fst (validate_and_check_rate_limit db now req) =
                 Inl (HTTPException 429 ''Rate limit exceeded. Try again tomorrow.'')))"
proof -
  have c: "fst (check_rate_limit db now k) =
           ((if is_new_day (last_used row) now then 0 else daily_usage row) < rate_limit row)"
    using assms by (rule check_rate_limit_of_row)
  have g: "is_active row \<and> get_client_key req = Some k \<and> k \<noteq> [] \<Longrightarrow>
      fst (validate_and_check_rate_limit db now req) =
     (if fst (check_rate_limit db now k)
      then Inr \<lparr>ui_id = key_id row, ui_name = key_name row, ui_email = key_email row,
                ui_rate_limit = rate_limit row, ui_daily_usage = daily_usage row\<rparr>
      else Inl (HTTPException 429 ''Rate limit exceeded. Try again tomorrow.''))"
    using assms by (simp add: gate_of_active_row)
  show ?thesis
    using g by (auto simp: c)
qed

text \<open>On day 10, \<open>vllm_k1\<close> (1 of 2) is admitted and \<open>vllm_k2\<close> (2 of 2) gets 429.\<close>

theorem quota_gate_admits_below_limit_and_rejects_at_limit_witness:
  "fst (validate_and_check_rate_limit db1 \<lparr>date = 10, seconds = 5\<rparr> req1) =
     Inr \<lparr>ui_id = ''id-1'', ui_name = ''alice'', ui_email = ''a@example.org'',
          ui_rate_limit = 2, ui_daily_usage = 1\<rparr>
   \<and> fst (validate_and_check_rate_limit db1 \<lparr>date = 10, seconds = 5\<rparr> req2) =
     Inl (HTTPException 429 ''Rate limit exceeded. Try again tomorrow.'')"
  using quota_gate_admits_below_limit_and_rejects_at_limit
          [of db1 "''vllm_k1''" row1 "\<lparr>date = 10, seconds = 5\<rparr>" req1]
        quota_gate_admits_below_limit_and_rejects_at_limit
          [of db1 "''vllm_k2''" row2 "\<lparr>date = 10, seconds = 5\<rparr>" req2]
  by (simp add: db1_def row1_def row2_def is_new_day_def client_key_req1 client_key_req2)

subsection \<open>The day boundary\<close>

text \<open>
  C2. When the credential was last used on day D and the request arrives on day D+1,
  \<^verbatim>\<open>check_rate_limit\<close> stores 0 as the counter before it compares, so with a positive
  limit it answers yes whatever the counter was, and the gate admits the active
  credential. The store that comes back holds the counter 0.
\<close>

theorem day_boundary_reset_admits:
  assumes "api_keys db k = Some row" and "last_used row = Some lu"
    and "date now = date lu + 1" and "0 < rate_limit row"
  shows "check_rate_limit db now k =
           (True, db\<lparr>api_keys := (api_keys db)(k \<mapsto> row\<lparr>daily_usage := 0\<rparr>)\<rparr>)
       \<and> (is_active row \<and> get_client_key req = Some k \<and> k \<noteq> [] \<longrightarrow>
            validate_and_check_rate_limit db now req =
              (Inr \<lparr>ui_id = key_id row, ui_name = key_name row, ui_email = key_email row,
                    ui_rate_limit = rate_limit row, ui_daily_usage = daily_usage row\<rparr>,
               db\<lparr>api_keys := (api_keys db)(k \<mapsto> row\<lparr>daily_usage := 0\<rparr>)\<rparr>))"
proof -
  have c: "check_rate_limit db now k =
           (True, db\<lparr>api_keys := (api_keys db)(k \<mapsto> row\<lparr>daily_usage := 0\<rparr>)\<rparr>)"
    using assms by (simp add: check_rate_limit_def is_new_day_def)
  show ?thesis
    using assms(1) by (simp add: c gate_of_active_row)
qed

text \<open>\<open>vllm_k2\<close>, exhausted on day 10, is admitted on day 11 and its counter is 0.\<close>

theorem day_boundary_reset_admits_witness:
  "validate_and_check_rate_limit db1 \<lparr>date = 11, seconds = 0\<rparr> req2 =
     (Inr \<lparr>ui_id = ''id-2'', ui_name = ''alice'', ui_email = ''a@example.org'',
           ui_rate_limit = 2, ui_daily_usage = 2\<rparr>,
      db1\<lparr>api_keys := (api_keys db1)(''vllm_k2'' \<mapsto> row2\<lparr>daily_usage := 0\<rparr>)\<rparr>)"
  using day_boundary_reset_admits
          [of db1 "''vllm_k2''" row2 "\<lparr>date = 10, seconds = 0\<rparr>"
              "\<lparr>date = 11, seconds = 0\<rparr>" req2]
  by (simp add: db1_def row1_def row2_def client_key_req2)

subsection \<open>Unknown and inactive secrets\<close>

text \<open>
  C4. A request whose secret is not in the store, or is the secret of a row with
  \<open>is_active\<close> false, gets 401 from the gate and the store is not touched; for the
  inactive row this is so whatever its limit, its counter and its last use are.
\<close>

theorem unknown_or_inactive_secret_is_unauthenticated:
  assumes "get_client_key req = Some k" and "k \<noteq> []"
  shows "(api_keys db k = None \<longrightarrow>
            validate_and_check_rate_limit db now req =
              (Inl (HTTPException 401 ''Invalid API key''), db))
       \<and> (\<forall>row. api_keys db k = Some row \<and> \<not> is_active row \<longrightarrow>
            validate_and_check_rate_limit db now req =
              (Inl (HTTPException 401 ''Invalid API key''), db)
          \<and> (\<forall>rl du lu.
               fst (validate_and_check_rate_limit
                      (db\<lparr>api_keys := (api_keys db)(k \<mapsto>
                            row\<lparr>rate_limit := rl, daily_usage := du, last_used := lu\<rparr>)\<rparr>)
                      now req) =
                 Inl (HTTPException 401 ''Invalid API key'')))"
  using assms
  by (auto simp: validate_and_check_rate_limit_def validate_api_key_def)

text \<open>
  \<open>vllm_k3\<close> is inactive with one call used of two, and \<open>vllm_nobody\<close> is not stored:
  both get 401.
\<close>

theorem unknown_or_inactive_secret_is_unauthenticated_witness:
  "validate_and_check_rate_limit db1 \<lparr>date = 10, seconds = 5\<rparr> req3 =
     (Inl (HTTPException 401 ''Invalid API key''), db1)
   \<and> validate_and_check_rate_limit db1 \<lparr>date = 10, seconds = 5\<rparr> req4 =
     (Inl (HTTPException 401 ''Invalid API key''), db1)"
  using unknown_or_inactive_secret_is_unauthenticated
          [of req3 "''vllm_k3''" db1 "\<lparr>date = 10, seconds = 5\<rparr>"]
        unknown_or_inactive_secret_is_unauthenticated
          [of req4 "''vllm_nobody''" db1 "\<lparr>date = 10, seconds = 5\<rparr>"]
  by (simp add: db1_def row1_def row3_def client_key_req3 client_key_req4)

section \<open>Selection\<close>

lemma gw_distinct:
  "gw1 \<noteq> gw2" "gw1 \<noteq> gw3" "gw2 \<noteq> gw3" "gw2 \<noteq> gw1" "gw3 \<noteq> gw1" "gw3 \<noteq> gw2"
  by (simp_all add: gw1_def gw2_def gw3_def)

lemma healthy_all_up: "get_healthy_gateways (lb_counts a b c True) = Inr [gw1, gw2, gw3]"
  by (simp add: get_healthy_gateways_def lb_counts_def gw_distinct)

lemma healthy_all_down: "get_healthy_gateways (lb_counts a b c False) = Inr []"
  by (simp add: get_healthy_gateways_def lb_counts_def gw_distinct)

text \<open>
  The loop of \<^verbatim>\<open>min\<close>, for items whose counters are all there (\<open>c\<close> gives them):
  either the best so far stays, and no item is below it, or the answer is an item that is
  strictly below the best so far and everything before it, and not above anything after.
\<close>

lemma min_loop_first_minimum:
  assumes "\<forall>g \<in> set items. counts g = Some (c g)"
  shows "(min_loop counts best bk items = Inr best \<and> (\<forall>h \<in> set items. bk \<le> c h))
       \<or> (\<exists>pre g post. items = pre @ g # post \<and> c g < bk
             \<and> (\<forall>h \<in> set pre. c g < c h) \<and> (\<forall>h \<in> set post. c g \<le> c h)
             \<and> min_loop counts best bk items = Inr g)"
  using assms
proof (induction items arbitrary: best bk)
  case Nil
  then show ?case by simp
next
  case (Cons x xs)
  have cx: "counts x = Some (c x)" and rest: "\<forall>g \<in> set xs. counts g = Some (c g)"
    using Cons.prems by simp_all
  show ?case
  proof (cases "c x < bk")
    case True
    from Cons.IH [OF rest, of x "c x"]
    consider (stay) "min_loop counts x (c x) xs = Inr x" "\<forall>h \<in> set xs. c x \<le> c h"
      | (move) pre g post where "xs = pre @ g # post" "c g < c x"
          "\<forall>h \<in> set pre. c g < c h" "\<forall>h \<in> set post. c g \<le> c h"
          "min_loop counts x (c x) xs = Inr g"
      by blast
    then show ?thesis
    proof cases
      case stay
      have "x # xs = [] @ x # xs" by simp
      with stay True cx show ?thesis
        by (intro disjI2 exI [of _ "[]"] exI [of _ x] exI [of _ xs]) simp
    next
      case move
      have "x # xs = (x # pre) @ g # post" using move(1) by simp
      moreover have "c g < bk" using move(2) True by simp
      moreover have "\<forall>h \<in> set (x # pre). c g < c h" using move(2,3) by simp
      moreover have "min_loop counts best bk (x # xs) = Inr g" using move(5) True cx by simp
      ultimately show ?thesis using move(4) by blast
    qed
  next
    case False
    from Cons.IH [OF rest, of best bk]
    consider (stay) "min_loop counts best bk xs = Inr best" "\<forall>h \<in> set xs. bk \<le> c h"
      | (move) pre g post where "xs = pre @ g # post" "c g < bk"
          "\<forall>h \<in> set pre. c g < c h" "\<forall>h \<in> set post. c g \<le> c h"
          "min_loop counts best bk xs = Inr g"
      by blast
    then show ?thesis
    proof cases
      case stay
      with False cx show ?thesis by simp
    next
      case move
      have "x # xs = (x # pre) @ g # post" using move(1) by simp
      moreover have "\<forall>h \<in> set (x # pre). c g < c h" using move(2,3) False by simp
      moreover have "min_loop counts best bk (x # xs) = Inr g" using move(5) False cx by simp
      ultimately show ?thesis using move(2,4) by blast
    qed
  qed
qed

lemma py_min_first_minimum:
  assumes "items \<noteq> []" and "\<forall>g \<in> set items. counts g = Some (c g)"
  shows "\<exists>pre g post. items = pre @ g # post
           \<and> (\<forall>h \<in> set pre. c g < c h) \<and> (\<forall>h \<in> set post. c g \<le> c h)
           \<and> py_min counts items = Inr g"
proof -
  from assms(1) obtain x xs where items: "items = x # xs" by (cases items) auto
  have cx: "counts x = Some (c x)" and rest: "\<forall>g \<in> set xs. counts g = Some (c g)"
    using assms(2) items by simp_all
  have pm: "py_min counts items = min_loop counts x (c x) xs"
    using items cx by (simp add: py_min_def)
  from min_loop_first_minimum [OF rest, of x "c x"]
  consider (stay) "min_loop counts x (c x) xs = Inr x" "\<forall>h \<in> set xs. c x \<le> c h"
    | (move) pre g post where "xs = pre @ g # post" "c g < c x"
        "\<forall>h \<in> set pre. c g < c h" "\<forall>h \<in> set post. c g \<le> c h"
        "min_loop counts x (c x) xs = Inr g"
    by blast
  then show ?thesis
  proof cases
    case stay
    have "items = [] @ x # xs" using items by simp
    with stay pm show ?thesis by (intro exI [of _ "[]"] exI [of _ x] exI [of _ xs]) simp
  next
    case move
    have "items = (x # pre) @ g # post" using move(1) items by simp
    moreover have "\<forall>h \<in> set (x # pre). c g < c h" using move(2,3) by simp
    ultimately show ?thesis using move(4,5) pm by metis
  qed
qed

text \<open>
  There is one such position only: the first position of the minimum. So the split below
  names the selected gateway, not just one of several.
\<close>

lemma first_minimum_unique:
  assumes "items = pre @ g # post"
    and "\<forall>h \<in> set pre. c g < c h" and "\<forall>h \<in> set post. c g \<le> c h"
    and "items = pre' @ g' # post'"
    and "\<forall>h \<in> set pre'. c g' < c h" and "\<forall>h \<in> set post'. c g' \<le> (c h :: int)"
  shows "pre = pre' \<and> g = g' \<and> post = post'"
  using assms
proof (induction pre arbitrary: pre' items)
  case Nil
  then show ?case by (cases pre') auto
next
  case (Cons a pre)
  then show ?case by (cases pre') auto
qed

text \<open>
  C5. With a non-empty list of healthy gateways and their counters \<open>c\<close>, the strategy
  \<^verbatim>\<open>"round_robin"\<close> returns the gateway \<open>g\<close> at the first position of the minimum
  counter: every healthy gateway registered before it has a strictly larger counter and
  none after it has a smaller one. The registry that comes back is the old one with the
  counter of \<open>g\<close> raised by one and nothing else changed. The result is a function of
  the registry, so it is the same for the same snapshot.
\<close>

theorem least_loaded_picks_first_minimum_and_counts_it:
  assumes "get_healthy_gateways lb = Inr healthy" and "healthy \<noteq> []"
    and "\<forall>g \<in> set healthy. request_counts lb g = Some (c g)"
  shows "\<exists>pre g post. healthy = pre @ g # post
           \<and> (\<forall>h \<in> set pre. c g < c h) \<and> (\<forall>h \<in> set post. c g \<le> c h)
           \<and> select_gateway choice lb (Some ''round_robin'') =
               Inr (g, lb\<lparr>request_counts := (request_counts lb)(g \<mapsto> c g + 1)\<rparr>)"
proof -
  from py_min_first_minimum [OF assms(2,3)]
  obtain pre g post where d: "healthy = pre @ g # post"
    "\<forall>h \<in> set pre. c g < c h" "\<forall>h \<in> set post. c g \<le> c h"
    "py_min (request_counts lb) healthy = Inr g"
    by blast
  have "g \<in> set healthy" using d(1) by simp
  then have cg: "request_counts lb g = Some (c g)" using assms(3) by blast
  have "select_gateway choice lb (Some ''round_robin'') =
               Inr (g, lb\<lparr>request_counts := (request_counts lb)(g \<mapsto> c g + 1)\<rparr>)"
    using assms(1,2) d(4) cg by (simp add: select_gateway_def)
  with d(1,2,3) show ?thesis by blast
qed

text \<open>
  With the counters 5, 3, 3 the second gateway is selected, the first of the two at 3,
  and the counters become 5, 4, 3.
\<close>

theorem least_loaded_picks_first_minimum_and_counts_it_witness:
  "get_healthy_gateways (lb_counts 5 3 3 True) = Inr [gw1, gw2, gw3]
   \<and> select_gateway hd (lb_counts 5 3 3 True) (Some ''round_robin'') =
       Inr (gw2, lb_counts 5 4 3 True)"
proof -
  have c: "\<forall>g \<in> set [gw1, gw2, gw3]. request_counts (lb_counts 5 3 3 True) g =
             Some (if g = gw1 then 5 else 3)"
    by (simp add: lb_counts_def gw_distinct)
  have ne: "[gw1, gw2, gw3] \<noteq> []" by simp
  from least_loaded_picks_first_minimum_and_counts_it [OF healthy_all_up ne c, of hd]
  obtain pre g post where d: "[gw1, gw2, gw3] = pre @ g # post"
    "\<forall>h \<in> set pre. (if g = gw1 then 5 else 3) < (if h = gw1 then 5 else (3::int))"
    "\<forall>h \<in> set post. (if g = gw1 then 5 else 3) \<le> (if h = gw1 then 5 else (3::int))"
    "select_gateway hd (lb_counts 5 3 3 True) (Some ''round_robin'') =
       Inr (g, (lb_counts 5 3 3 True)\<lparr>request_counts :=
          (request_counts (lb_counts 5 3 3 True))(g \<mapsto> (if g = gw1 then 5 else 3) + 1)\<rparr>)"
    by auto
  from d(1,2,3) have "g = gw2"
    by (auto simp: Cons_eq_append_conv gw_distinct split: if_splits)
  with d(4) have "select_gateway hd (lb_counts 5 3 3 True) (Some ''round_robin'') =
       Inr (gw2, lb_counts 5 4 3 True)"
    by (simp add: lb_counts_def fun_upd_twist gw_distinct)
  with healthy_all_up show ?thesis by simp
qed

text \<open>
  C6. For every registry and every strategy name other than \<^verbatim>\<open>"random"\<close>, the name
  \<^verbatim>\<open>"least_connections"\<close> among them, and for the omitted argument, \<^verbatim>\<open>select_gateway\<close>
  returns what it returns for \<^verbatim>\<open>"round_robin"\<close>: the same gateway and the same registry.
\<close>

theorem other_strategies_select_as_least_loaded:
  "(s \<noteq> ''random'' \<longrightarrow>
      select_gateway choice lb (Some s) = select_gateway choice lb (Some ''round_robin''))
   \<and> select_gateway choice lb (Some ''least_connections'') =
       select_gateway choice lb (Some ''round_robin'')
   \<and> select_gateway choice lb None = select_gateway choice lb (Some ''round_robin'')"
  by (simp add: select_gateway_def split: sum.splits)

theorem other_strategies_select_as_least_loaded_witness:
  "select_gateway hd (lb_counts 5 3 3 True) (Some ''weighted'') =
     select_gateway hd (lb_counts 5 3 3 True) (Some ''round_robin'')
   \<and> select_gateway hd (lb_counts 5 3 3 True) (Some ''least_connections'') =
     select_gateway hd (lb_counts 5 3 3 True) (Some ''round_robin'')
   \<and> select_gateway hd (lb_counts 5 3 3 True) None =
     select_gateway hd (lb_counts 5 3 3 True) (Some ''round_robin'')"
  using other_strategies_select_as_least_loaded [of "''weighted''" hd "lb_counts 5 3 3 True"]
  by simp

section \<open>No healthy gateway\<close>

lemma update_loop_keeps_counts:
  "request_counts (snd (update_loop probe t gs lb)) = request_counts lb
   \<and> gateways (snd (update_loop probe t gs lb)) = gateways lb"
  by (induction gs arbitrary: lb) (auto split: option.splits)

lemma update_health_status_keeps_counts:
  "request_counts (snd (update_health_status probe t lb)) = request_counts lb"
  by (simp add: update_health_status_def update_loop_keeps_counts)

text \<open>When no probe is due the refresh changes nothing.\<close>

lemma update_loop_not_due:
  assumes "\<forall>g \<in> set gs. \<exists>l. last_health_check lb g = Some l
             \<and> \<not> t - l > health_check_interval lb"
  shows "update_loop probe t gs lb = (None, lb)"
  using assms by (induction gs) auto

lemma update_not_due_example:
  "update_health_status probe 110 (lb_counts a b c up) = (None, lb_counts a b c up)"
  by (simp add: update_health_status_def lb_counts_def gw_distinct)

lemma healthy_of_all_unhealthy:
  assumes "\<forall>g \<in> set gs. status g = Some False"
  shows "healthy_of status gs = Inr []"
  using assms by (induction gs) auto

text \<open>
  A refresh in which no probe succeeds leaves every gateway that was marked unhealthy
  marked unhealthy. \<open>G\<close> is the set of registered gateways.
\<close>

lemma update_loop_keeps_unhealthy:
  assumes "\<forall>g \<in> G. health_status lb g = Some False
             \<and> (\<exists>l. last_health_check lb g = Some l
                  \<and> (health_check_interval lb < t - l \<longrightarrow> \<not> probe g))"
    and "set gs \<subseteq> G"
  shows "\<exists>lb1. update_loop probe t gs lb = (None, lb1)
           \<and> (\<forall>g \<in> G. health_status lb1 g = Some False)"
  using assms
proof (induction gs arbitrary: lb)
  case Nil
  then show ?case by simp
next
  case (Cons x xs)
  from Cons.prems obtain l where l: "last_health_check lb x = Some l"
    and hx: "health_check_interval lb < t - l \<longrightarrow> \<not> probe x"
    by auto
  show ?case
  proof (cases "t - l > health_check_interval lb")
    case True
    let ?lb = "lb\<lparr>health_status := (health_status lb)(x \<mapsto> probe x),
                   last_health_check := (last_health_check lb)(x \<mapsto> t)\<rparr>"
    from True hx have px: "\<not> probe x" by simp
    have inv: "\<forall>g \<in> G. health_status ?lb g = Some False
             \<and> (\<exists>l. last_health_check ?lb g = Some l
                  \<and> (health_check_interval ?lb < t - l \<longrightarrow> \<not> probe g))"
      using Cons.prems(1) px by auto
    from Cons.IH [OF inv] Cons.prems(2)
    obtain lb1 where "update_loop probe t xs ?lb = (None, lb1)"
      "\<forall>g \<in> G. health_status lb1 g = Some False"
      by auto
    with l True show ?thesis by simp
  next
    case False
    from Cons.IH [OF Cons.prems(1)] Cons.prems(2)
    obtain lb1 where "update_loop probe t xs lb = (None, lb1)"
      "\<forall>g \<in> G. health_status lb1 g = Some False"
      by auto
    with l False show ?thesis by simp
  qed
qed

lemma refresh_keeps_all_unhealthy:
  assumes "\<forall>g \<in> set (gateways lb). health_status lb g = Some False
             \<and> (\<exists>l. last_health_check lb g = Some l
                  \<and> (health_check_interval lb < t - l \<longrightarrow> \<not> probe g))"
  shows "\<exists>lb1. update_health_status probe t lb = (None, lb1)
           \<and> get_healthy_gateways lb1 = Inr []"
proof -
  from update_loop_keeps_unhealthy [OF assms, of "gateways lb"]
  obtain lb1 where u: "update_loop probe t (gateways lb) lb = (None, lb1)"
    and h: "\<forall>g \<in> set (gateways lb). health_status lb1 g = Some False"
    by auto
  have "gateways lb1 = gateways lb"
    using update_loop_keeps_counts [of probe t "gateways lb" lb] u by simp
  with h have "get_healthy_gateways lb1 = Inr []"
    by (simp add: get_healthy_gateways_def healthy_of_all_unhealthy)
  with u show ?thesis by (simp add: update_health_status_def)
qed

lemma no_healthy_after_refresh:
  assumes "update_health_status probe t lb = (None, lb1)"
    and "get_healthy_gateways lb1 = Inr []"
  shows "proxy_all probe choice send lb sent t req path =
           (Inl (HTTPException 503 ''Service temporarily unavailable''), lb1, sent)
       \<and> request_counts lb1 = request_counts lb
       \<and> (\<forall>s. select_gateway choice lb1 s =
                Inl (HTTPException 503 ''No healthy gateways available''))"
proof -
  have sel: "select_gateway choice lb1 s =
               Inl (HTTPException 503 ''No healthy gateways available'')" for s
    using assms(2) by (simp add: select_gateway_def)
  have "request_counts lb1 = request_counts lb"
    using update_health_status_keeps_counts [of probe t lb] assms(1) by simp
  moreover have "proxy_all probe choice send lb sent t req path =
           (Inl (HTTPException 503 ''Service temporarily unavailable''), lb1, sent)"
    using assms(1) sel by (simp add: proxy_all_def)
  ultimately show ?thesis using sel by blast
qed

text \<open>
  A refresh in which every probe is due and succeeds marks every gateway healthy, and the
  selection then runs as usual.
\<close>

lemma refresh_example_all_due:
  "update_health_status probe_up 200 (lb_counts 5 3 3 False) =
     (None, (lb_counts 5 3 3 True)\<lparr>last_health_check :=
               [gw1 \<mapsto> 200, gw2 \<mapsto> 200, gw3 \<mapsto> 200]\<rparr>)"
  by (simp add: update_health_status_def lb_counts_def gw_distinct probe_up_def fun_upd_twist)

lemma select_after_refresh_example:
  "select_gateway hd
     ((lb_counts 5 3 3 True)\<lparr>last_health_check := [gw1 \<mapsto> 200, gw2 \<mapsto> 200, gw3 \<mapsto> 200]\<rparr>)
     (Some ''round_robin'') =
   Inr (gw2, (lb_counts 5 4 3 True)\<lparr>last_health_check :=
               [gw1 \<mapsto> 200, gw2 \<mapsto> 200, gw3 \<mapsto> 200]\<rparr>)"
  by (simp add: select_gateway_def get_healthy_gateways_def py_min_def lb_counts_def
        gw_distinct fun_upd_twist)

text \<open>
  C7, as the claim has it, fails: \<^verbatim>\<open>proxy_all\<close> refreshes the health flags before it
  selects. All three gateways are marked unhealthy as the request arrives, the last
  probes are 100 seconds old, and every probe now succeeds: the request is forwarded to
  the second gateway, whose counter goes from 3 to 4, and the caller gets the upstream
  answer.
\<close>

theorem all_unhealthy_on_arrival_gives_503_counterexample:
  "get_healthy_gateways (lb_counts 5 3 3 False) = Inr []
   \<and> proxy_all probe_up hd send_ok (lb_counts 5 3 3 False) [] 200 lb_req1 ''v1/models'' =
       (Inr \<lparr>sr_status = 200, sr_headers = [], sr_content = ''{}''\<rparr>,
        (lb_counts 5 4 3 True)\<lparr>last_health_check :=
           [gw1 \<mapsto> 200, gw2 \<mapsto> 200, gw3 \<mapsto> 200]\<rparr>,
        [\<lparr>call_method = ''POST'', call_url = ''http://localhost:8002/v1/models'',
          call_headers = [(''x-api-key'', ''vllm_k1'')], call_content = ''{}'',
          call_params = []\<rparr>])
   \<and> request_counts (lb_counts 5 3 3 False) gw2 = Some 3
   \<and> request_counts (lb_counts 5 4 3 True) gw2 = Some 4"
proof -
  have "proxy_request send_ok [] lb_req1 gw2 (''/'' @ ''v1/models'') =
          (Inr \<lparr>sr_status = 200, sr_headers = [], sr_content = ''{}''\<rparr>,
           [\<lparr>call_method = ''POST'', call_url = ''http://localhost:8002/v1/models'',
             call_headers = [(''x-api-key'', ''vllm_k1'')], call_content = ''{}'',
             call_params = []\<rparr>])"
    by (simp add: proxy_request_def send_ok_def lb_req1_def gw2_def)
  then have "proxy_all probe_up hd send_ok (lb_counts 5 3 3 False) [] 200 lb_req1
               ''v1/models'' =
       (Inr \<lparr>sr_status = 200, sr_headers = [], sr_content = ''{}''\<rparr>,
        (lb_counts 5 4 3 True)\<lparr>last_health_check :=
           [gw1 \<mapsto> 200, gw2 \<mapsto> 200, gw3 \<mapsto> 200]\<rparr>,
        [\<lparr>call_method = ''POST'', call_url = ''http://localhost:8002/v1/models'',
          call_headers = [(''x-api-key'', ''vllm_k1'')], call_content = ''{}'',
          call_params = []\<rparr>])"
    by (simp add: proxy_all_def refresh_example_all_due select_after_refresh_example)
  moreover have "request_counts (lb_counts 5 3 3 False) gw2 = Some 3"
    and "request_counts (lb_counts 5 4 3 True) gw2 = Some 4"
    by (simp_all add: lb_counts_def gw_distinct)
  ultimately show ?thesis
    using healthy_all_down by simp
qed

text \<open>
  C7, amended. When no gateway is marked healthy after the refresh at the start of
  \<^verbatim>\<open>proxy_all\<close>, the request fails with 503, no call is forwarded upstream and no
  counter changes: \<^verbatim>\<open>select_gateway\<close> raises its 503 before it looks at the
  strategy, so no branch that selects is reached, whatever the strategy is. That is the
  case in particular when every gateway is marked unhealthy as the request arrives and
  no probe that is due succeeds. (The probes of the refresh go to the health route of a
  gateway; they are not forwarded requests and are not in the list of calls sent.)
\<close>

theorem no_healthy_gateway_gives_503_without_forwarding:
  "(update_health_status probe t lb = (None, lb1) \<and> get_healthy_gateways lb1 = Inr []
      \<longrightarrow>
      proxy_all probe choice send lb sent t req path =
        (Inl (HTTPException 503 ''Service temporarily unavailable''), lb1, sent)
      \<and> request_counts lb1 = request_counts lb
      \<and> (\<forall>s. select_gateway choice lb1 s =
               Inl (HTTPException 503 ''No healthy gateways available'')))
   \<and> ((\<forall>g \<in> set (gateways lb). health_status lb g = Some False
          \<and> (\<exists>l. last_health_check lb g = Some l
               \<and> (health_check_interval lb < t - l \<longrightarrow> \<not> probe g)))
      \<longrightarrow>
      (\<exists>lb'. proxy_all probe choice send lb sent t req path =
                (Inl (HTTPException 503 ''Service temporarily unavailable''), lb', sent)
             \<and> request_counts lb' = request_counts lb
             \<and> get_healthy_gateways lb' = Inr []))"
proof (intro conjI impI)
  assume "update_health_status probe t lb = (None, lb1) \<and> get_healthy_gateways lb1 = Inr []"
  then have a: "update_health_status probe t lb = (None, lb1)"
    and b: "get_healthy_gateways lb1 = Inr []" by simp_all
  from no_healthy_after_refresh [OF a b]
  show "proxy_all probe choice send lb sent t req path =
        (Inl (HTTPException 503 ''Service temporarily unavailable''), lb1, sent)"
    and "request_counts lb1 = request_counts lb"
    and "\<forall>s. select_gateway choice lb1 s =
               Inl (HTTPException 503 ''No healthy gateways available'')"
    by blast+
next
  assume "\<forall>g \<in> set (gateways lb). health_status lb g = Some False
          \<and> (\<exists>l. last_health_check lb g = Some l
               \<and> (health_check_interval lb < t - l \<longrightarrow> \<not> probe g))"
  from refresh_keeps_all_unhealthy [OF this]
  obtain lb' where a: "update_health_status probe t lb = (None, lb')"
    and b: "get_healthy_gateways lb' = Inr []" by blast
  from no_healthy_after_refresh [OF a b] b
  show "\<exists>lb'. proxy_all probe choice send lb sent t req path =
                (Inl (HTTPException 503 ''Service temporarily unavailable''), lb', sent)
             \<and> request_counts lb' = request_counts lb
             \<and> get_healthy_gateways lb' = Inr []"
    by blast
qed

text \<open>
  All three gateways are marked unhealthy. Probed 10 seconds ago, none is probed again;
  probed 100 seconds ago, each is probed and the probe fails. Both times the request
  gets 503 and nothing is forwarded.
\<close>

theorem no_healthy_gateway_gives_503_without_forwarding_witness:
  "proxy_all probe_up hd send_fails (lb_counts 5 3 3 False) [] 110 lb_req1 ''v1/models'' =
     (Inl (HTTPException 503 ''Service temporarily unavailable''), lb_counts 5 3 3 False, [])
   \<and> fst (proxy_all probe_down hd send_fails (lb_counts 5 3 3 False) [] 200 lb_req1
            ''v1/models'') =
     Inl (HTTPException 503 ''Service temporarily unavailable'')
   \<and> snd (snd (proxy_all probe_down hd send_fails (lb_counts 5 3 3 False) [] 200 lb_req1
                 ''v1/models'')) = []"
proof -
  note a = no_healthy_gateway_gives_503_without_forwarding
             [where probe = probe_up and t = 110 and lb = "lb_counts 5 3 3 False"
                 and ?lb1.0 = "lb_counts 5 3 3 False" and choice = hd and send = send_fails
                 and sent = "[]" and req = lb_req1 and path = "''v1/models''"]
  note b = no_healthy_gateway_gives_503_without_forwarding
             [where probe = probe_down and t = 200 and lb = "lb_counts 5 3 3 False"
                 and ?lb1.0 = "lb_counts 5 3 3 False" and choice = hd and send = send_fails
                 and sent = "[]" and req = lb_req1 and path = "''v1/models''"]
  have h: "\<forall>g \<in> set (gateways (lb_counts 5 3 3 False)).
             health_status (lb_counts 5 3 3 False) g = Some False
             \<and> (\<exists>l. last_health_check (lb_counts 5 3 3 False) g = Some l
                  \<and> (health_check_interval (lb_counts 5 3 3 False) < 200 - l
                       \<longrightarrow> \<not> probe_down g))"
    by (simp add: lb_counts_def gw_distinct probe_down_def)
  from a have "proxy_all probe_up hd send_fails (lb_counts 5 3 3 False) [] 110 lb_req1
                 ''v1/models'' =
     (Inl (HTTPException 503 ''Service temporarily unavailable''), lb_counts 5 3 3 False, [])"
    by (simp add: update_not_due_example healthy_all_down)
  moreover from b h
  obtain lb' where "proxy_all probe_down hd send_fails (lb_counts 5 3 3 False) [] 200 lb_req1
                 ''v1/models'' =
     (Inl (HTTPException 503 ''Service temporarily unavailable''), lb', [])"
    by blast
  ultimately show ?thesis by simp
qed

section \<open>The inference routes\<close>

lemma json_not_bound:
  "load_global ''json'' = Inl (PyException ''NameError'' ''name 'json' is not defined'')"
  by (simp add: load_global_def gateway_globals_def builtins_read_def)

lemma inference_try_raises:
  "inference_try rt st info path ep b =
     (Inl (PyException ''NameError'' ''name 'json' is not defined''), st)"
  by (simp add: inference_try_def json_not_bound)

text \<open>The gate never writes to \<^verbatim>\<open>usage_logs\<close>.\<close>

lemma gate_keeps_usage_logs:
  "usage_logs (snd (validate_and_check_rate_limit db now req)) = usage_logs db"
  by (auto simp: validate_and_check_rate_limit_def check_rate_limit_def
           split: option.splits prod.splits bool.splits if_splits)

lemma inference_route_after_gate:
  assumes "validate_and_check_rate_limit (gw_db st) now req = (Inr info, db')"
  shows "inference_route path ep rt st now req =
           (Inl (HTTPException 500 ''Error connecting to vLLM: name 'json' is not defined''),
            st\<lparr>gw_db := db'\<rparr>)"
  using assms by (simp add: inference_route_def inference_try_raises)

text \<open>Whatever the request is, an inference route ends in an exception.\<close>

lemma inference_route_never_answers:
  "\<exists>e. fst (inference_route path ep rt st now req) = Inl e"
  by (cases "validate_and_check_rate_limit (gw_db st) now req")
     (auto simp: inference_route_def inference_try_raises split: sum.splits)

lemma gate_admits_req1:
  "validate_and_check_rate_limit db1 \<lparr>date = 10, seconds = 5\<rparr> req1 = (Inr info1, db1)"
  by (simp add: validate_and_check_rate_limit_def validate_api_key_def check_rate_limit_def
        is_new_day_def client_key_req1 db1_def row1_def info1_def)

lemma gate_admits_st1:
  "validate_and_check_rate_limit (gw_db st1) \<lparr>date = 10, seconds = 5\<rparr> req1 = (Inr info1, db1)"
  by (simp add: st1_def gate_admits_req1)

text \<open>
  C3. When the gate admits a POST to \<^verbatim>\<open>chat_completions\<close> or \<^verbatim>\<open>completions\<close>, the
  first statement of the \<^verbatim>\<open>try\<close> block raises \<^verbatim>\<open>NameError\<close> for the name \<^verbatim>\<open>json\<close>,
  and the route raises 500 with that text. The state is the one the gate left: no
  upstream call was issued and \<^verbatim>\<open>usage_logs\<close> has no new row.
\<close>

theorem inference_routes_always_raise_500:
  assumes "validate_and_check_rate_limit (gw_db st) now req = (Inr info, db')"
  shows "chat_completions rt st now req =
           (Inl (HTTPException 500 ''Error connecting to vLLM: name 'json' is not defined''),
            st\<lparr>gw_db := db'\<rparr>)
       \<and> completions rt st now req =
           (Inl (HTTPException 500 ''Error connecting to vLLM: name 'json' is not defined''),
            st\<lparr>gw_db := db'\<rparr>)
       \<and> upstream_calls (snd (chat_completions rt st now req)) = upstream_calls st
       \<and> upstream_calls (snd (completions rt st now req)) = upstream_calls st
       \<and> usage_logs (gw_db (snd (chat_completions rt st now req))) = usage_logs (gw_db st)
       \<and> usage_logs (gw_db (snd (completions rt st now req))) = usage_logs (gw_db st)"
proof -
  have u: "usage_logs db' = usage_logs (gw_db st)"
    using gate_keeps_usage_logs [of "gw_db st" now req] assms by simp
  show ?thesis
    using assms u
    by (simp add: chat_completions_def completions_def inference_route_after_gate)
qed

text \<open>
  \<open>vllm_k1\<close> is admitted on day 10, the upstream would answer 200, and both routes
  raise 500 and leave the state as it was.
\<close>

theorem inference_routes_always_raise_500_witness:
  "chat_completions rt_ok st1 \<lparr>date = 10, seconds = 5\<rparr> req1 =
     (Inl (HTTPException 500 ''Error connecting to vLLM: name 'json' is not defined''), st1)
   \<and> completions rt_ok st1 \<lparr>date = 10, seconds = 5\<rparr> req1 =
     (Inl (HTTPException 500 ''Error connecting to vLLM: name 'json' is not defined''), st1)"
  using inference_routes_always_raise_500 [OF gate_admits_st1, of rt_ok]
  by (simp add: st1_def)

section \<open>Failures after the gate\<close>

lemma get_models_after_gate:
  assumes "validate_and_check_rate_limit (gw_db st) now req = (Inr info, db')"
  shows "get_models rt st now req =
           (case get_models_try rt (st\<lparr>gw_db := db'\<rparr>) info of
              (Inl e, st') \<Rightarrow>
                (Inl (HTTPException 500 (''Error connecting to vLLM: '' @ exc_msg e)), st')
            | (Inr answer, st') \<Rightarrow> (Inr answer, st'))"
  using assms by (simp add: get_models_def)

text \<open>
  C9, as the claim has it, fails: the upstream answers 200 for the models listing, the
  store is locked when \<^verbatim>\<open>log_usage\<close> runs, and the caller gets 500.
\<close>

theorem usage_failure_is_swallowed_counterexample:
  "http_get rt_locked (vllm_url rt_locked @ ''/models'') =
     Inr \<lparr>resp_status = 200, resp_body = ''{}''\<rparr>
   \<and> fst (get_models rt_locked st1 \<lparr>date = 10, seconds = 5\<rparr> req1) =
     Inl (HTTPException 500 ''Error connecting to vLLM: database is locked'')"
  unfolding get_models_after_gate [OF gate_admits_st1]
  by (simp add: get_models_try_def log_usage_def rt_locked_def rt_ok_def)

text \<open>
  C9, amended. \<^verbatim>\<open>log_usage\<close> has no handler of its own and is called inside the
  \<^verbatim>\<open>try\<close> block of the route. When the upstream call of the models listing has
  succeeded and \<^verbatim>\<open>log_usage\<close> raises, the route raises 500 with the text of that
  exception, and the upstream answer is dropped. In the block of the inference routes
  the call sits in the same place: there too its exception ends the block.
\<close>

theorem usage_failure_becomes_500:
  assumes "db_fault rt = Some e"
  shows "log_usage (db_fault rt) ts db k ep n = Inl e
       \<and> (\<forall>info db' response.
            validate_and_check_rate_limit (gw_db st) now req = (Inr info, db')
            \<and> http_get rt (vllm_url rt @ ''/models'') = Inr response \<longrightarrow>
            get_models rt st now req =
              (Inl (HTTPException 500 (''Error connecting to vLLM: '' @ exc_msg e)),
               st\<lparr>gw_db := db',
                  upstream_calls := upstream_calls st @ [vllm_url rt @ ''/models'']\<rparr>))
       \<and> (\<forall>request_data response response_data.
            json_loads rt b = Inr request_data
            \<and> http_post rt (vllm_url rt @ path) b = Inr response
            \<and> response_json rt response = Inr response_data \<longrightarrow>
            fst (inference_body rt st info0 path ep b) = Inl e)"
proof -
  have l: "log_usage (db_fault rt) ts' db0 k0 ep0 n0 = Inl e" for ts' db0 k0 ep0 n0
    using assms by (simp add: log_usage_def)
  have m: "get_models rt st now req =
              (Inl (HTTPException 500 (''Error connecting to vLLM: '' @ exc_msg e)),
               st\<lparr>gw_db := db',
                  upstream_calls := upstream_calls st @ [vllm_url rt @ ''/models'']\<rparr>)"
    if "validate_and_check_rate_limit (gw_db st) now req = (Inr info, db')"
      and "http_get rt (vllm_url rt @ ''/models'') = Inr response"
    for info db' response
    using that by (simp add: get_models_after_gate get_models_try_def l)
  have i: "fst (inference_body rt st info0 path ep b) = Inl e"
    if "json_loads rt b = Inr request_data"
      and "http_post rt (vllm_url rt @ path) b = Inr response"
      and "response_json rt response = Inr response_data"
    for request_data response response_data
    using that by (simp add: inference_body_def l)
  show ?thesis using l m i by blast
qed

theorem usage_failure_becomes_500_witness:
  "get_models rt_locked st1 \<lparr>date = 10, seconds = 5\<rparr> req1 =
     (Inl (HTTPException 500 ''Error connecting to vLLM: database is locked''),
      st1\<lparr>upstream_calls := [''http://localhost:8000/v1/models'']\<rparr>)
   \<and> fst (inference_body rt_locked st1 info1 ''/chat/completions'' ''/v1/chat/completions''
            ''{}'') =
     Inl (PyException ''OperationalError'' ''database is locked'')"
proof -
  have f: "db_fault rt_locked = Some (PyException ''OperationalError'' ''database is locked'')"
    by (simp add: rt_locked_def)
  have g: "http_get rt_locked (vllm_url rt_locked @ ''/models'') =
             Inr \<lparr>resp_status = 200, resp_body = ''{}''\<rparr>"
    by (simp add: rt_locked_def rt_ok_def)
  have l: "json_loads rt_locked ''{}'' = Inr ''{}''"
    by (simp add: rt_locked_def rt_ok_def)
  have p: "http_post rt_locked (vllm_url rt_locked @ ''/chat/completions'') ''{}'' =
             Inr \<lparr>resp_status = 200, resp_body = ''{}''\<rparr>"
    by (simp add: rt_locked_def rt_ok_def)
  have j: "response_json rt_locked \<lparr>resp_status = 200, resp_body = ''{}''\<rparr> = Inr ''{}''"
    by (simp add: rt_locked_def rt_ok_def)
  note t = usage_failure_becomes_500
             [OF f, where st = st1 and now = "\<lparr>date = 10, seconds = 5\<rparr>" and req = req1
                and b = "''{}''" and path = "''/chat/completions''" and ?info0.0 = info1
                and ep = "''/v1/chat/completions''"]
  from t gate_admits_st1 g
  have "get_models rt_locked st1 \<lparr>date = 10, seconds = 5\<rparr> req1 =
          (Inl (HTTPException 500 (''Error connecting to vLLM: '' @
                  exc_msg (PyException ''OperationalError'' ''database is locked''))),
           st1\<lparr>gw_db := db1,
               upstream_calls := upstream_calls st1 @ [vllm_url rt_locked @ ''/models'']\<rparr>)"
    by blast
  moreover from t l p j
  have "fst (inference_body rt_locked st1 info1 ''/chat/completions''
               ''/v1/chat/completions'' ''{}'') =
          Inl (PyException ''OperationalError'' ''database is locked'')"
    by blast
  ultimately show ?thesis
    by (simp add: st1_def rt_locked_def rt_ok_def)
qed

section \<open>The recorded cost\<close>

text \<open>
  The models listing: when the gate admits, the upstream call returns and the store
  works, \<^verbatim>\<open>usage_logs\<close> gets one new row, with the cost 0.
\<close>

lemma get_models_records_cost_0:
  assumes "validate_and_check_rate_limit (gw_db st) now req = (Inr info, db')"
    and "http_get rt (vllm_url rt @ ''/models'') = Inr response"
    and "db_fault rt = None"
  shows "usage_logs (gw_db (snd (get_models rt st now req))) =
          usage_logs (gw_db st) @
            [\<lparr>api_key_id = ui_id info, endpoint = ''/v1/models'', tokens_used = 0,
              timestamp = current_timestamp rt\<rparr>]"
proof -
  have "usage_logs db' = usage_logs (gw_db st)"
    using gate_keeps_usage_logs [of "gw_db st" now req] assms(1) by simp
  with assms show ?thesis
    by (simp add: get_models_after_gate get_models_try_def log_usage_def Let_def
          split: sum.splits)
qed

text \<open>
  C10, on the code. The credential \<open>vllm_k1\<close> is admitted on day 10 and posts the body
  \<open>{}\<close>; the upstream would answer 200 with the body \<open>{}\<close>, so the cost of the claim
  is (2 + 2) div 4 = 1. Both inference routes raise 500 at the name \<^verbatim>\<open>json\<close> and leave
  the state as it was: \<^verbatim>\<open>usage_logs\<close> stays empty and no cost is recorded. The models
  listing of the same credential records the cost 0.
\<close>

theorem admitted_inference_call_records_no_cost:
  "validate_and_check_rate_limit (gw_db st1) \<lparr>date = 10, seconds = 5\<rparr> req1 = (Inr info1, db1)
   \<and> body req1 = ''{}''
   \<and> http_post rt_ok (vllm_url rt_ok @ ''/chat/completions'') (body req1) =
       Inr \<lparr>resp_status = 200, resp_body = ''{}''\<rparr>
   \<and> (int (length (body req1)) + int (length ''{}'')) div 4 = 1
   \<and> chat_completions rt_ok st1 \<lparr>date = 10, seconds = 5\<rparr> req1 =
       (Inl (HTTPException 500 ''Error connecting to vLLM: name 'json' is not defined''), st1)
   \<and> completions rt_ok st1 \<lparr>date = 10, seconds = 5\<rparr> req1 =
       (Inl (HTTPException 500 ''Error connecting to vLLM: name 'json' is not defined''), st1)
   \<and> usage_logs (gw_db st1) = []
   \<and> usage_logs (gw_db (snd (get_models rt_ok st1 \<lparr>date = 10, seconds = 5\<rparr> req1))) =
       [\<lparr>api_key_id = ''id-1'', endpoint = ''/v1/models'', tokens_used = 0,
         timestamp = \<lparr>date = 10, seconds = 6\<rparr>\<rparr>]"
proof -
  have r: "inference_route path ep rt_ok st1 \<lparr>date = 10, seconds = 5\<rparr> req1 =
       (Inl (HTTPException 500 ''Error connecting to vLLM: name 'json' is not defined''), st1)"
    for path ep
    using inference_route_after_gate [OF gate_admits_st1, of path ep rt_ok]
    by (simp add: st1_def)
  have g: "http_get rt_ok (vllm_url rt_ok @ ''/models'') =
             Inr \<lparr>resp_status = 200, resp_body = ''{}''\<rparr>"
    and f: "db_fault rt_ok = None"
    by (simp_all add: rt_ok_def)
  have m: "usage_logs (gw_db (snd (get_models rt_ok st1 \<lparr>date = 10, seconds = 5\<rparr> req1))) =
       [\<lparr>api_key_id = ''id-1'', endpoint = ''/v1/models'', tokens_used = 0,
         timestamp = \<lparr>date = 10, seconds = 6\<rparr>\<rparr>]"
    using get_models_records_cost_0 [OF gate_admits_st1 g f]
    by (simp add: st1_def db1_def info1_def rt_ok_def)
  have p: "http_post rt_ok (vllm_url rt_ok @ ''/chat/completions'') (body req1) =
       Inr \<lparr>resp_status = 200, resp_body = ''{}''\<rparr>"
    by (simp add: rt_ok_def)
  have b: "body req1 = ''{}''" by (simp add: req1_def)
  have u: "usage_logs (gw_db st1) = []" by (simp add: st1_def db1_def)
  show ?thesis
    using gate_admits_st1 b p r m u
    by (simp add: chat_completions_def completions_def)
qed

section \<open>Upstream failures\<close>


text \<open>
  What \<^verbatim>\<open>proxy_all\<close> makes of a failed forward: the 502 of \<^verbatim>\<open>proxy_request\<close> is an
  \<^verbatim>\<open>Exception\<close>, so the handler around it raises 503 in its place.
\<close>

lemma proxy_all_answers_503_for_failed_forward:
  assumes "update_health_status probe t lb = (None, lb1)"
    and "select_gateway choice lb1 (Some ''round_robin'') = Inr (g, lb2)"
    and "fst (proxy_request send sent req g (''/'' @ path)) = Inl e"
  shows "fst (proxy_all probe choice send lb sent t req path) =
           Inl (HTTPException 503 ''Service temporarily unavailable'')"
  using assms by (auto simp: proxy_all_def split: prod.splits sum.splits)




end
